theory Spec2Isabelle
  imports Main "HOL-Library.Sublist" "HOL-Library.AList"
begin

section \<open>Strings of the source\<close>

text \<open>
  A Python \<open>str\<close> is modelled as a \<open>string\<close> whose characters are code points
  0..255: every character class below is the class Python's \<open>re\<close> and \<open>str\<close>
  methods use, cut down to that range.
\<close>

definition is_space :: "char \<Rightarrow> bool" where
  \<comment> \<open>\<open>\s\<close> of a str pattern: tab..carriage return, the separators 28..31, space, NEL, NBSP\<close>
  "is_space c =
     (let n = (of_char c :: nat)
      in (9 \<le> n \<and> n \<le> 13) \<or> (28 \<le> n \<and> n \<le> 32) \<or> n = 133 \<or> n = 160)"

definition is_digit :: "char \<Rightarrow> bool" where
  \<comment> \<open>\<open>\d\<close>: the decimal digits\<close>
  "is_digit c = (let n = (of_char c :: nat) in 48 \<le> n \<and> n \<le> 57)"

definition is_word :: "char \<Rightarrow> bool" where
  \<comment> \<open>\<open>\w\<close>: \<open>str.isalnum\<close> or the underscore\<close>
  "is_word c =
     (let n = (of_char c :: nat)
      in (48 \<le> n \<and> n \<le> 57) \<or> (65 \<le> n \<and> n \<le> 90) \<or> n = 95 \<or> (97 \<le> n \<and> n \<le> 122)
         \<or> n = 170 \<or> n = 178 \<or> n = 179 \<or> n = 181 \<or> n = 185 \<or> n = 186
         \<or> (188 \<le> n \<and> n \<le> 190) \<or> (192 \<le> n \<and> n \<le> 214) \<or> (216 \<le> n \<and> n \<le> 246)
         \<or> 248 \<le> n)"

definition lower_char :: "char \<Rightarrow> char" where
  "lower_char c =
     (let n = (of_char c :: nat)
      in if (65 \<le> n \<and> n \<le> 90) \<or> (192 \<le> n \<and> n \<le> 222 \<and> n \<noteq> 215)
         then char_of (n + 32) else c)"

definition lower :: "string \<Rightarrow> string" where
  \<comment> \<open>\<open>str.lower()\<close>\<close>
  "lower s = map lower_char s"

definition startswith :: "string \<Rightarrow> string \<Rightarrow> bool" where
  \<comment> \<open>\<open>s.startswith(p)\<close>\<close>
  "startswith s p = (take (length p) s = p)"

fun split_once :: "char \<Rightarrow> string \<Rightarrow> (string \<times> string) option" where
  \<comment> \<open>\<open>s.split(sep, 1)\<close>: the text before and after the first separator, None when
      the separator does not occur (the split then has one part only)\<close>
  "split_once sep [] = None"
| "split_once sep (c # cs) =
     (if c = sep then Some ([], cs)
      else (case split_once sep cs of
              None \<Rightarrow> None
            | Some (a, b) \<Rightarrow> Some (c # a, b)))"

fun split_char :: "char \<Rightarrow> string \<Rightarrow> string list" where
  \<comment> \<open>\<open>s.split(sep)\<close> for a one-character separator: never empty\<close>
  "split_char sep [] = [[]]"
| "split_char sep (c # cs) =
     (if c = sep then [] # split_char sep cs
      else (case split_char sep cs of
              [] \<Rightarrow> [[c]]
            | p # ps \<Rightarrow> (c # p) # ps))"

fun join :: "string \<Rightarrow> string list \<Rightarrow> string" where
  \<comment> \<open>\<open>sep.join(parts)\<close>\<close>
  "join sep [] = []"
| "join sep [p] = p"
| "join sep (p # q # ps) = p @ sep @ join sep (q # ps)"

definition digit_char :: "nat \<Rightarrow> char" where
  "digit_char d =
     (if d = 0 then CHR ''0'' else if d = 1 then CHR ''1'' else if d = 2 then CHR ''2''
      else if d = 3 then CHR ''3'' else if d = 4 then CHR ''4'' else if d = 5 then CHR ''5''
      else if d = 6 then CHR ''6'' else if d = 7 then CHR ''7'' else if d = 8 then CHR ''8''
      else CHR ''9'')"

function str_nat :: "nat \<Rightarrow> string" where
  \<comment> \<open>\<open>str(n)\<close> of a non-negative int: its decimal digits, most significant first\<close>
  "str_nat n =
     (if n < 10 then [digit_char n]
      else str_nat (n div 10) @ [digit_char (n mod 10)])"
  by pat_completeness auto
termination
  by (relation "measure (\<lambda>n. n)") auto

declare str_nat.simps [simp del]

fun int_digits :: "nat \<Rightarrow> string \<Rightarrow> nat option" where
  "int_digits acc [] = Some acc"
| "int_digits acc (c # cs) =
     (if is_digit c then int_digits (10 * acc + (of_char c - 48)) cs else None)"

definition py_int :: "string \<Rightarrow> nat option" where
  \<comment> \<open>\<open>int(s)\<close> on a text of decimal digits; None is ValueError. Signs, blanks and
      digit separators, which \<open>int\<close> also reads, are outside the model.\<close>
  "py_int s = (if s = [] then None else int_digits 0 s)"

section \<open>Key normalizer\<close>

fun sub_space_bracket :: "string \<Rightarrow> string" where
  \<comment> \<open>\<open>re.sub(r"[\s-]]", "_", name)\<close>: the pattern is the class \<open>[\s-]\<close> followed by a
      literal \<open>]\<close>; matches are replaced left to right without overlap\<close>
  "sub_space_bracket (c # d # cs) =
     (if (is_space c \<or> c = CHR ''-'') \<and> d = CHR '']''
      then CHR ''_'' # sub_space_bracket cs
      else c # sub_space_bracket (d # cs))"
| "sub_space_bracket cs = cs"

definition normalize_key_and_name :: "string \<Rightarrow> string" where
  "normalize_key_and_name name = lower (sub_space_bracket name)"

section \<open>Secret classifier\<close>

definition secret_suffixes :: "string list" where
  "secret_suffixes =
     [''password'', ''secret'', ''token'', ''api_key'', ''db_pass'', ''secret_key'']"

definition at_dollar :: "string \<Rightarrow> bool" where
  \<comment> \<open>\<open>$\<close> without MULTILINE: at the end of the text, or before a newline that ends it\<close>
  "at_dollar rest = (rest = [] \<or> rest = [CHR 0x0A])"

definition patt_match_here :: "string \<Rightarrow> bool" where
  \<comment> \<open>\<open>(password|...|secret_key)$\<close> with IGNORECASE, matched at the start of \<open>s\<close>\<close>
  "patt_match_here s =
     list_ex (\<lambda>a. length a \<le> length s \<and> lower (take (length a) s) = a
                  \<and> at_dollar (drop (length a) s)) secret_suffixes"

fun patt_search :: "string \<Rightarrow> bool" where
  \<comment> \<open>\<open>patt.search(key)\<close>: a match at some position\<close>
  "patt_search [] = patt_match_here []"
| "patt_search (c # cs) = (patt_match_here (c # cs) \<or> patt_search cs)"

fun seqs_search :: "string list \<Rightarrow> string \<Rightarrow> bool" where
  \<comment> \<open>\<open>re.search(rf"({'|'.join(secret_seqs)})", key)\<close> for sequences of literal
      characters (no regex operator in them): one of them starts at some position\<close>
  "seqs_search seqs [] = list_ex (\<lambda>s. startswith [] s) seqs"
| "seqs_search seqs (c # cs) =
     (list_ex (\<lambda>s. startswith (c # cs) s) seqs \<or> seqs_search seqs cs)"

definition is_secret :: "string \<Rightarrow> string \<Rightarrow> string \<Rightarrow> string list option \<Rightarrow> bool" where
  "is_secret service_name key val secret_seqs =
     (if patt_search key then True
      else (case secret_seqs of
              None \<Rightarrow> False
            | Some seqs \<Rightarrow> seqs \<noteq> [] \<and> seqs_search seqs key))"

section \<open>Data model\<close>

datatype error = OSError | ValueError | KeyError | IndexError | TypeError

datatype val = VStr string | VInt nat | VDict "(string \<times> string) list"

text \<open>One entry of \<open>bootstrap_data["defaults"]\<close>; a dictionary key that an entry does
  not have is \<open>None\<close>.\<close>

record var_record =
  key :: string
  original_key :: "string option"
  "value" :: val
  is_secret_flag :: bool
  service :: string
  secret_path :: "string option"
  secret_expr :: "string option"
  env_file :: "string option"

record image_data =
  img_service :: string
  img_tag :: string
  img_kind :: "string option"

text \<open>The options of \<open>main\<close> that the transformation reads. The format string
  \<open>secret_string_template\<close> is kept parsed: literal text and the three fields that
  \<open>get_secret_path\<close> supplies.\<close>

datatype tmpl_piece = Lit string | Field_role_name | Field_service_name | Field_env_key

record config =
  defaults_prefix :: string
  role_name :: string
  min_secret_length :: int
  secret_string_template :: "tmpl_piece list"
  proxy_container :: "string option"
  ext_proxy_net :: string
  uid :: "nat option"

text \<open>Modelled from the spec: the classes \<open>ComposeSpecification\<close>, \<open>Service\<close> and
  \<open>Volume\<close> of module \<open>dc\<close>, which is not among the sources. A service has an optional
  environment (a mapping from key to string value), mount specs with a type and a source,
  port specs with an optional published host port (the text \<open>docker compose config\<close>
  emits) and an optional image; a declared volume has a name.\<close>

record mount =
  vol_type :: string
  vol_source :: string

record port =
  published :: "string option"

record Service =
  svc_environment :: "(string \<times> string) list option"
  svc_volumes :: "mount list"
  svc_ports :: "port list"
  svc_image :: "string option"

record compose_model =
  cm_services :: "(string \<times> Service) list"
  cm_volumes :: "(string \<times> string) list"

text \<open>The original descriptor \<open>final\<close>, as \<open>yaml.safe_load\<close> returns it: per service
  the keys the rewriter reads, volumes and ports in their short text form.\<close>

datatype environment = EnvAbsent | EnvList "string list" | EnvDict "(string \<times> string) list"

datatype env_file_decl = EnvFileAbsent | EnvFileStr string | EnvFileList "string list"

record og_service =
  og_environment :: environment
  og_env_file :: env_file_decl
  og_volumes :: "string list option"
  og_ports :: "string list option"
  og_image :: "string option"
  og_user :: "string option"
  og_networks :: "string list option"

record network =
  net_name :: string
  net_external :: bool

record og_compose =
  og_services :: "(string \<times> og_service) list"
  og_top_networks :: "(string \<times> network) list option"

text \<open>The containers the closures of \<open>main\<close> fill: the entries of \<open>bootstrap_data\<close>
  that change, and \<open>services_by_env\<close>, \<open>volume_defaults\<close>, \<open>images_tags\<close>.
  Dictionaries are association lists in insertion order.\<close>

record state =
  defaults :: "var_record list"
  services_by_env :: "(string \<times> string list) list"
  env_files :: "(string \<times> string) list"
  backup_paths :: "string list"
  exposed_ports_by_service :: "(string \<times> nat list) list"
  volume_defaults :: "(string \<times> string) list"
  images_tags :: "(string \<times> image_data) list"

definition init_state :: state where
  "init_state =
     \<lparr>defaults = [], services_by_env = [], env_files = [], backup_paths = [],
      exposed_ports_by_service = [], volume_defaults = [], images_tags = []\<rparr>"

text \<open>The files the run may read: the text of the regular file a path names (the path
  as the descriptor writes it, taken relative to the descriptor's directory), or
  \<open>None\<close> where there is no regular file.\<close>

type_synonym files = "string \<Rightarrow> string option"

definition file_type_env :: string where
  "file_type_env = ''# deploy-docker-compose-template::type::env''"

section \<open>Variable names\<close>

definition variable_from_env :: "config \<Rightarrow> string \<Rightarrow> string" where
  "variable_from_env cfg k = defaults_prefix cfg @ normalize_key_and_name k"

definition variable_from_port :: "config \<Rightarrow> string \<Rightarrow> nat \<Rightarrow> bool \<Rightarrow> string" where
  "variable_from_port cfg service_name exposed_port add_prefix =
     (if add_prefix then defaults_prefix cfg else []) @ ''host_port_'' @ service_name
       @ ''_'' @ str_nat exposed_port"

definition releases_key :: string where
  "releases_key = normalize_key_and_name ''releases''"

definition placeholder :: "string \<Rightarrow> string" where
  \<comment> \<open>the f-string \<open>{{ var }}\<close>\<close>
  "placeholder var = ''{{ '' @ var @ '' }}''"

section \<open>Secret paths\<close>

fun render_piece :: "string \<Rightarrow> string \<Rightarrow> string \<Rightarrow> tmpl_piece \<Rightarrow> string" where
  "render_piece r s k (Lit t) = t"
| "render_piece r s k Field_role_name = r"
| "render_piece r s k Field_service_name = s"
| "render_piece r s k Field_env_key = k"

definition get_secret_path :: "config \<Rightarrow> string \<Rightarrow> string \<Rightarrow> string" where
  "get_secret_path cfg svc_name k =
     concat (map (render_piece (normalize_key_and_name (role_name cfg)) svc_name k)
                 (secret_string_template cfg))"

definition get_secret_expr :: "config \<Rightarrow> string \<Rightarrow> string \<Rightarrow> string" where
  \<comment> \<open>for an item whose value is the text \<open>v\<close> and whose secret path is \<open>path\<close>\<close>
  "get_secret_expr cfg v path =
     (let secret_len = nat (max (int (length v)) (min_secret_length cfg))
      in ''{{ lookup('' @ [CHR 0x27] @ ''community.general.passwordstore'' @ [CHR 0x27]
           @ '', '' @ [CHR 0x27] @ path @ '' create=true length='' @ str_nat secret_len
           @ [CHR 0x27] @ '') }}'')"

section \<open>Env files\<close>

definition path_parts :: "string \<Rightarrow> string list" where
  \<comment> \<open>\<open>Path(p).parts\<close> on a POSIX system\<close>
  "path_parts p =
     (let comps = filter (\<lambda>c. c \<noteq> [] \<and> c \<noteq> ''.'') (split_char CHR ''/'' p)
      in if startswith p ''//'' \<and> \<not> startswith p ''///'' then ''//'' # comps
         else if startswith p ''/'' then ''/'' # comps
         else comps)"

definition file_name_id :: "string \<Rightarrow> error + string" where
  "file_name_id path =
     (case path_parts path of
        [] \<Rightarrow> Inl IndexError
      | p # ps \<Rightarrow>
          Inr (normalize_key_and_name (join ''_'' (split_char CHR ''.'' (last (p # ps))))))"

fun env_to_dict_upd :: "(string \<times> string) list \<Rightarrow> string list \<Rightarrow> error + (string \<times> string) list" where
  "env_to_dict_upd e [] = Inr e"
| "env_to_dict_upd e (item # items) =
     (case split_once CHR ''='' item of
        None \<Rightarrow> Inl ValueError
      | Some (k, v) \<Rightarrow> env_to_dict_upd (AList.update k v e) items)"

definition env_to_dict :: "string list \<Rightarrow> error + (string \<times> string) list" where
  "env_to_dict env = env_to_dict_upd [] env"

definition is_linebreak :: "char \<Rightarrow> bool" where
  "is_linebreak c =
     (let n = (of_char c :: nat) in (10 \<le> n \<and> n \<le> 13) \<or> (28 \<le> n \<and> n \<le> 30) \<or> n = 133)"

fun splitlines_from :: "string \<Rightarrow> string \<Rightarrow> string list" where
  \<comment> \<open>\<open>str.splitlines()\<close> of the rest of a text, the current line so far given\<close>
  "splitlines_from cur [] = (if cur = [] then [] else [cur])"
| "splitlines_from cur [c] = (if is_linebreak c then [cur] else [cur @ [c]])"
| "splitlines_from cur (c # d # cs) =
     (if c = CHR 0x0D \<and> d = CHR 0x0A then cur # splitlines_from [] cs
      else if is_linebreak c then cur # splitlines_from [] (d # cs)
      else splitlines_from (cur @ [c]) (d # cs))"

definition splitlines :: "string \<Rightarrow> string list" where
  "splitlines text = splitlines_from [] text"

fun iterate :: "bool \<Rightarrow> nat \<Rightarrow> string list \<Rightarrow> string list" where
  \<comment> \<open>the generator of \<open>env_from_file\<close>, from line number \<open>ix\<close> on\<close>
  "iterate compose_env_file ix [] = []"
| "iterate compose_env_file ix (line # rest) =
     (if \<not> compose_env_file \<and> ix = 0 \<and> \<not> startswith line file_type_env then []
      else if line = [] \<or> startswith line ''#'' then iterate compose_env_file (Suc ix) rest
      else line # iterate compose_env_file (Suc ix) rest)"

definition env_from_file :: "files \<Rightarrow> string \<Rightarrow> bool \<Rightarrow> error + (string \<times> string) list" where
  \<comment> \<open>\<open>read_text\<close> raises where there is no regular file\<close>
  "env_from_file fs p compose_env_file =
     (case fs p of
        None \<Rightarrow> Inl OSError
      | Some text \<Rightarrow> env_to_dict (iterate compose_env_file 0 (splitlines text)))"

section \<open>Variable registry\<close>

definition seen :: "state \<Rightarrow> string \<Rightarrow> bool" where
  \<comment> \<open>the truth value of \<open>services_by_env.get(key)\<close>\<close>
  "seen st k = (case map_of (services_by_env st) k of None \<Rightarrow> False | Some svcs \<Rightarrow> svcs \<noteq> [])"

definition append_service :: "string \<Rightarrow> string \<Rightarrow> (string \<times> string list) list \<Rightarrow> (string \<times> string list) list" where
  \<comment> \<open>\<open>services_by_env[key].append(service_name)\<close> on a \<open>defaultdict(list)\<close>\<close>
  "append_service k service_name m =
     AList.update k ((case map_of m k of None \<Rightarrow> [] | Some svcs \<Rightarrow> svcs) @ [service_name]) m"

definition add_to_defaults ::
  "config \<Rightarrow> string \<Rightarrow> val \<Rightarrow> string \<Rightarrow> bool \<Rightarrow> string option \<Rightarrow> state \<Rightarrow> error + state" where
  "add_to_defaults cfg k v service_name secret envf st =
     (if seen st k then Inr st
      else
        let normalized_key = variable_from_env cfg k;
            data = \<lparr>key = normalized_key, original_key = Some k, value = v,
                    is_secret_flag = secret, service = service_name,
                    secret_path = None, secret_expr = None, env_file = None\<rparr>
        in case (if secret
                 then (case v of
                         VStr s \<Rightarrow>
                           Inr (data\<lparr>secret_path := Some (get_secret_path cfg service_name k),
                                     secret_expr := Some (get_secret_expr cfg s
                                        (get_secret_path cfg service_name k))\<rparr>)
                       | _ \<Rightarrow> Inl TypeError)
                 else Inr data) of
             Inl e \<Rightarrow> Inl e
           | Inr data1 \<Rightarrow>
               (case (case envf of
                        None \<Rightarrow> Inr (data1, env_files st)
                      | Some f \<Rightarrow>
                          if f = [] then Inr (data1, env_files st)
                          else (case file_name_id f of
                                  Inl e \<Rightarrow> Inl e
                                | Inr fid \<Rightarrow>
                                    Inr (data1\<lparr>env_file := Some f\<rparr>,
                                         AList.update f fid (env_files st)))) of
                  Inl e \<Rightarrow> Inl e
                | Inr (data2, efs) \<Rightarrow>
                    Inr (st\<lparr>defaults := defaults st @ [data2],
                            env_files := efs,
                            services_by_env := append_service k service_name (services_by_env st)\<rparr>)))"

definition handle_secret_env_var ::
  "config \<Rightarrow> string \<Rightarrow> string \<Rightarrow> string \<Rightarrow> string option \<Rightarrow> state \<Rightarrow> error + state" where
  "handle_secret_env_var cfg svc_name k v envf st = add_to_defaults cfg k (VStr v) svc_name True envf st"

definition handle_env_var ::
  "config \<Rightarrow> string \<Rightarrow> string \<Rightarrow> string \<Rightarrow> string option \<Rightarrow> state \<Rightarrow> error + state" where
  "handle_env_var cfg svc_name k v envf st = add_to_defaults cfg k (VStr v) svc_name False envf st"

section \<open>Service walker\<close>

fun register_env ::
  "config \<Rightarrow> string \<Rightarrow> (string \<Rightarrow> string option) \<Rightarrow> (string \<times> string) list \<Rightarrow> state \<Rightarrow> error + state" where
  \<comment> \<open>the loop \<open>for key, value in ...items()\<close> that \<open>handle_svc_environment\<close> and
      \<open>handle_svc_env_file\<close> both end with; \<open>prov\<close> gives the \<open>env_file\<close> argument\<close>
  "register_env cfg name prov [] st = Inr st"
| "register_env cfg name prov ((k, v) # items) st =
     (case (if is_secret name k v None
            then handle_secret_env_var cfg name k v (prov k) st
            else handle_env_var cfg name k v (prov k) st) of
        Inl e \<Rightarrow> Inl e
      | Inr st1 \<Rightarrow> register_env cfg name prov items st1)"

definition env_f_list :: "env_file_decl \<Rightarrow> string list" where
  \<comment> \<open>the files the loop over \<open>env_f_list\<close> visits; none when \<open>env_file\<close> is falsy\<close>
  "env_f_list d =
     (case d of
        EnvFileAbsent \<Rightarrow> []
      | EnvFileStr f \<Rightarrow> (if f = [] then [] else [f])
      | EnvFileList fl \<Rightarrow> fl)"

fun read_env_files ::
  "files \<Rightarrow> (string \<times> string) list \<Rightarrow> string list \<Rightarrow> error + (string \<times> string) list" where
  \<comment> \<open>fills \<open>names_to_env_files\<close>\<close>
  "read_env_files fs names [] = Inr names"
| "read_env_files fs names (f # rest) =
     (case env_from_file fs f True of
        Inl e \<Rightarrow> Inl e
      | Inr file_env_data \<Rightarrow>
          read_env_files fs (fold (\<lambda>k m. AList.update k f m) (map fst file_env_data) names) rest)"

definition handle_svc_environment ::
  "config \<Rightarrow> files \<Rightarrow> og_compose \<Rightarrow> string \<Rightarrow> Service \<Rightarrow> state \<Rightarrow> error + state" where
  \<comment> \<open>\<open>if not env\<close> holds for an absent environment only: \<open>env\<close> is a model object
      (the loop reads \<open>env.root\<close>), which is true whatever it holds. The env files are
      read with no check that they exist and no handler around the parse.\<close>
  "handle_svc_environment cfg fs final name svc st =
     (case svc_environment svc of
        None \<Rightarrow> Inr st
      | Some env \<Rightarrow>
          (case map_of (og_services final) name of
             None \<Rightarrow> Inl KeyError
           | Some data \<Rightarrow>
               (case read_env_files fs [] (env_f_list (og_env_file data)) of
                  Inl e \<Rightarrow> Inl e
                | Inr names_to_env_files \<Rightarrow>
                    register_env cfg name (map_of names_to_env_files) env st)))"

definition handle_svc_env_file :: "config \<Rightarrow> files \<Rightarrow> string \<Rightarrow> string \<Rightarrow> state \<Rightarrow> error + state" where
  \<comment> \<open>\<open>is_file()\<close> fails: return; \<open>env_from_file\<close> raises: return\<close>
  "handle_svc_env_file cfg fs name path st =
     (case fs path of
        None \<Rightarrow> Inr st
      | Some text \<Rightarrow>
          (case env_from_file fs path False of
             Inl e \<Rightarrow> Inr st
           | Inr env \<Rightarrow> register_env cfg name (\<lambda>k. Some path) env st))"

definition vol_id_of :: "string \<Rightarrow> string" where
  \<comment> \<open>the text \<open>re.search(r"[\w._]+$", val)\<close> matches, or \<open>data\<close>: the longest run of
      word characters and dots that ends the path, one final newline apart\<close>
  "vol_id_of v =
     (let core = (if v \<noteq> [] \<and> last v = CHR 0x0A then butlast v else v);
          run = rev (takeWhile (\<lambda>c. is_word c \<or> c = CHR ''.'') (rev core))
      in if run = [] then ''data'' else run)"

fun handle_svc_volumes ::
  "config \<Rightarrow> files \<Rightarrow> string \<Rightarrow> mount list \<Rightarrow> (string \<times> string) list \<Rightarrow> state \<Rightarrow> error + state" where
  "handle_svc_volumes cfg fs name [] volumes st = Inr st"
| "handle_svc_volumes cfg fs name (vol # vols) volumes st =
     (if vol_type vol = ''bind'' then
        (let v = vol_source vol;
             st1 = st\<lparr>backup_paths := backup_paths st @ [v]\<rparr>
         in case handle_svc_env_file cfg fs name v st1 of
              Inl e \<Rightarrow> Inl e
            | Inr st2 \<Rightarrow>
                (let vol_id = map (\<lambda>c. if c = CHR ''.'' then CHR ''_'' else c) (vol_id_of v);
                     normalized_key = defaults_prefix cfg @ vol_id @ ''_mount_dir''
                 in handle_svc_volumes cfg fs name vols volumes
                      (st2\<lparr>volume_defaults := AList.update v normalized_key (volume_defaults st2)\<rparr>)))
      else if vol_type vol = ''volume'' then
        (case map_of volumes (vol_source vol) of
           None \<Rightarrow> Inl KeyError
         | Some vol_path \<Rightarrow>
             handle_svc_volumes cfg fs name vols volumes
               (st\<lparr>backup_paths := backup_paths st @ [''/var/lib/docker/volumes/'' @ vol_path]\<rparr>))
      else handle_svc_volumes cfg fs name vols volumes st)"

definition append_port :: "string \<Rightarrow> nat \<Rightarrow> (string \<times> nat list) list \<Rightarrow> (string \<times> nat list) list" where
  \<comment> \<open>\<open>exposed_ports_by_service[name].append(host_port)\<close> on a \<open>defaultdict(list)\<close>\<close>
  "append_port name host_port m =
     AList.update name ((case map_of m name of None \<Rightarrow> [] | Some ps \<Rightarrow> ps) @ [host_port]) m"

fun handle_svc_ports :: "config \<Rightarrow> string \<Rightarrow> port list \<Rightarrow> state \<Rightarrow> error + state" where
  "handle_svc_ports cfg name [] st = Inr st"
| "handle_svc_ports cfg name (p # ps) st =
     (case published p of
        None \<Rightarrow> handle_svc_ports cfg name ps st
      | Some s \<Rightarrow>
          if s = [] then handle_svc_ports cfg name ps st
          else (case py_int s of
                  None \<Rightarrow> Inl ValueError
                | Some host_port \<Rightarrow>
                    (case add_to_defaults cfg (variable_from_port cfg name host_port False)
                            (VInt host_port) name False None
                            (st\<lparr>exposed_ports_by_service :=
                                  append_port name host_port (exposed_ports_by_service st)\<rparr>) of
                       Inl e \<Rightarrow> Inl e
                     | Inr st1 \<Rightarrow> handle_svc_ports cfg name ps st1)))"

definition supported :: "string list" where
  "supported = [''mariadb'', ''postgres'', ''redis'']"

fun db_search :: "string \<Rightarrow> string option" where
  \<comment> \<open>group 1 of \<open>db_search_patt.search(image)\<close>\<close>
  "db_search [] = None"
| "db_search (c # cs) =
     (case find (\<lambda>d. startswith (c # cs) d) supported of
        Some d \<Rightarrow> Some d
      | None \<Rightarrow> db_search cs)"

definition handle_service_image :: "string \<Rightarrow> Service \<Rightarrow> state \<Rightarrow> error + state" where
  "handle_service_image name svc st =
     (case svc_image svc of
        None \<Rightarrow> Inl TypeError
      | Some img \<Rightarrow>
          Inr (st\<lparr>images_tags :=
                   AList.update img
                     \<lparr>img_service = name, img_tag = last (split_char CHR '':'' img),
                      img_kind = db_search img\<rparr>
                     (images_tags st)\<rparr>))"

definition add_releases_to_defaults :: "config \<Rightarrow> state \<Rightarrow> state" where
  "add_releases_to_defaults cfg st =
     st\<lparr>defaults := defaults st @
          [\<lparr>key = variable_from_env cfg releases_key, original_key = None,
            value = VDict (fold (\<lambda>(img, d) m. AList.update (img_service d) (img_tag d) m)
                             (images_tags st) []),
            is_secret_flag = False, service = ''None'',
            secret_path = None, secret_expr = None, env_file = None\<rparr>]\<rparr>"

fun handle_services ::
  "config \<Rightarrow> files \<Rightarrow> og_compose \<Rightarrow> (string \<times> string) list \<Rightarrow> (string \<times> Service) list \<Rightarrow> state
     \<Rightarrow> error + state" where
  "handle_services cfg fs final volumes [] st = Inr st"
| "handle_services cfg fs final volumes ((svc_name, svc) # rest) st =
     (case handle_svc_environment cfg fs final svc_name svc st of
        Inl e \<Rightarrow> Inl e
      | Inr st1 \<Rightarrow>
          (case handle_svc_volumes cfg fs svc_name (svc_volumes svc) volumes st1 of
             Inl e \<Rightarrow> Inl e
           | Inr st2 \<Rightarrow>
               (case handle_svc_ports cfg svc_name (svc_ports svc) st2 of
                  Inl e \<Rightarrow> Inl e
                | Inr st3 \<Rightarrow>
                    (case handle_service_image svc_name svc st3 of
                       Inl e \<Rightarrow> Inl e
                     | Inr st4 \<Rightarrow> handle_services cfg fs final volumes rest st4))))"

section \<open>Descriptor rewriter\<close>

fun replace_skip :: "nat \<Rightarrow> string \<Rightarrow> string \<Rightarrow> string \<Rightarrow> string" where
  \<comment> \<open>the first argument counts the characters of a match still to pass over\<close>
  "replace_skip n old new [] = []"
| "replace_skip n old new (c # cs) =
     (if 0 < n then replace_skip (n - 1) old new cs
      else if startswith (c # cs) old then new @ replace_skip (length old - 1) old new cs
      else c # replace_skip 0 old new cs)"

definition replace :: "string \<Rightarrow> string \<Rightarrow> string \<Rightarrow> string" where
  \<comment> \<open>\<open>s.replace(old, new)\<close>; an empty \<open>old\<close> matches at every position\<close>
  "replace s old new =
     (if old = [] then new @ concat (map (\<lambda>c. c # new) s) else replace_skip 0 old new s)"

definition patch_port :: "string \<Rightarrow> string \<Rightarrow> string" where
  \<comment> \<open>\<open>re.sub(r"^\d+", new_key, port_line)\<close>, for a \<open>new_key\<close> without backslash\<close>
  "patch_port port_line new_key =
     (if takeWhile is_digit port_line = [] then port_line
      else new_key @ dropWhile is_digit port_line)"

definition patch_image_tag :: "string \<Rightarrow> string \<Rightarrow> string" where
  "patch_image_tag img new_tag =
     (let splits = split_char CHR '':'' img in join '':'' (butlast splits @ [new_tag]))"

fun sub_digits :: "bool \<Rightarrow> string \<Rightarrow> string \<Rightarrow> string" where
  \<comment> \<open>\<open>re.sub(r"\d+", repl, s)\<close>; the flag says that the digit run at hand is replaced
      already\<close>
  "sub_digits in_run repl [] = []"
| "sub_digits in_run repl (c # cs) =
     (if is_digit c then (if in_run then sub_digits True repl cs
                          else repl @ sub_digits True repl cs)
      else c # sub_digits False repl cs)"

definition rewrite_environment :: "config \<Rightarrow> environment \<Rightarrow> error + environment" where
  \<comment> \<open>the environment of a service after the loop over \<open>env_.items()\<close>\<close>
  "rewrite_environment cfg env =
     (case (case env of
              EnvAbsent \<Rightarrow> Inr None
            | EnvList l \<Rightarrow> (case env_to_dict l of Inl e \<Rightarrow> Inl e | Inr d \<Rightarrow> Inr (Some d))
            | EnvDict d \<Rightarrow> Inr (Some d)) of
        Inl e \<Rightarrow> Inl e
      | Inr None \<Rightarrow> Inr EnvAbsent
      | Inr (Some d) \<Rightarrow>
          Inr (EnvDict (fold (\<lambda>(k, v) e.
                  AList.update k (placeholder (variable_from_env cfg k)) e) d d)))"

fun rewrite_volumes :: "(string \<times> string) list \<Rightarrow> mount list \<Rightarrow> string list \<Rightarrow> error + string list" where
  \<comment> \<open>the loop over \<open>enumerate(data.get("volumes", []))\<close>, the mounts of the canonical
      service alongside\<close>
  "rewrite_volumes vd ms [] = Inr []"
| "rewrite_volumes vd [] (v # vs) = Inl IndexError"
| "rewrite_volumes vd (m # ms) (v # vs) =
     (let v1 = (case map_of vd (vol_source m) of
                  None \<Rightarrow> v
                | Some var \<Rightarrow> replace v (vol_source m) (placeholder var))
      in case rewrite_volumes vd ms vs of
           Inl e \<Rightarrow> Inl e
         | Inr vs1 \<Rightarrow> Inr (v1 # vs1))"

definition rewrite_ports :: "config \<Rightarrow> string \<Rightarrow> nat list \<Rightarrow> string list \<Rightarrow> string list" where
  \<comment> \<open>\<open>new_ports\<close>\<close>
  "rewrite_ports cfg name exposed ports =
     map (\<lambda>(port_entry, exposed_port).
            patch_port port_entry (placeholder (variable_from_port cfg name exposed_port True)))
         (zip ports exposed)"

definition new_tag_of :: "config \<Rightarrow> string \<Rightarrow> string" where
  \<comment> \<open>the f-string \<open>{{ <releases variable>['<name>'] }}\<close>\<close>
  "new_tag_of cfg name =
     ''{{ '' @ variable_from_env cfg releases_key @ ''['' @ [CHR 0x27] @ name @ [CHR 0x27]
       @ ''] }}''"

definition rewrite_service ::
  "config \<Rightarrow> compose_model \<Rightarrow> state \<Rightarrow> string \<Rightarrow> og_service \<Rightarrow> error + og_service" where
  \<comment> \<open>the body of the loop of \<open>create_final_compose\<close>\<close>
  "rewrite_service cfg model st name data =
     (case rewrite_environment cfg (og_environment data) of
        Inl e \<Rightarrow> Inl e
      | Inr env \<Rightarrow>
          (case (case og_volumes data of
                   None \<Rightarrow> Inr None
                 | Some vs \<Rightarrow>
                     if vs = [] then Inr (Some [])
                     else (case map_of (cm_services model) name of
                             None \<Rightarrow> Inl KeyError
                           | Some svc \<Rightarrow>
                               (case rewrite_volumes (volume_defaults st) (svc_volumes svc) vs of
                                  Inl e \<Rightarrow> Inl e
                                | Inr vs1 \<Rightarrow> Inr (Some vs1)))) of
             Inl e \<Rightarrow> Inl e
           | Inr vols \<Rightarrow>
               (let new_ports =
                      rewrite_ports cfg name
                        (case map_of (exposed_ports_by_service st) name of
                           None \<Rightarrow> [] | Some ps \<Rightarrow> ps)
                        (case og_ports data of None \<Rightarrow> [] | Some ps \<Rightarrow> ps)
                in case og_image data of
                     None \<Rightarrow> Inl KeyError
                   | Some img \<Rightarrow>
                       Inr (data\<lparr>og_environment := env, og_volumes := vols,
                              og_ports := (if new_ports = [] then og_ports data else Some new_ports),
                              og_image := Some (patch_image_tag img (new_tag_of cfg name)),
                              og_user :=
                                (case (uid cfg, og_user data) of
                                   (Some u, Some usr) \<Rightarrow>
                                     if u = 0 \<or> usr = [] then og_user data
                                     else Some (sub_digits False (str_nat u) usr)
                                 | _ \<Rightarrow> og_user data)\<rparr>))))"

fun rewrite_services ::
  "config \<Rightarrow> compose_model \<Rightarrow> state \<Rightarrow> (string \<times> og_service) list
     \<Rightarrow> error + (string \<times> og_service) list" where
  "rewrite_services cfg model st [] = Inr []"
| "rewrite_services cfg model st ((name, data) # rest) =
     (case rewrite_service cfg model st name data of
        Inl e \<Rightarrow> Inl e
      | Inr data1 \<Rightarrow>
          (case rewrite_services cfg model st rest of
             Inl e \<Rightarrow> Inl e
           | Inr rest1 \<Rightarrow> Inr ((name, data1) # rest1)))"

definition handle_proxy_container :: "config \<Rightarrow> og_compose \<Rightarrow> error + og_compose" where
  "handle_proxy_container cfg compose_config =
     (case proxy_container cfg of
        None \<Rightarrow> Inr compose_config
      | Some pc \<Rightarrow>
          if pc = [] then Inr compose_config
          else (case map_of (og_services compose_config) pc of
                  None \<Rightarrow> Inl KeyError
                | Some svc \<Rightarrow>
                    (let nets = (case og_top_networks compose_config of
                                   None \<Rightarrow> [] | Some ns \<Rightarrow> ns);
                         joined = (case og_networks svc of None \<Rightarrow> [] | Some ns \<Rightarrow> ns)
                                    @ [ext_proxy_net cfg];
                         joined1 = (if length joined = 1 then joined @ [''default''] else joined)
                     in Inr (compose_config
                          \<lparr>og_services :=
                             AList.update pc (svc\<lparr>og_networks := Some joined1\<rparr>)
                               (og_services compose_config),
                           og_top_networks :=
                             Some (case map_of nets (ext_proxy_net cfg) of
                                     None \<Rightarrow> nets @ [(ext_proxy_net cfg,
                                        \<lparr>net_name = ext_proxy_net cfg, net_external = True\<rparr>)]
                                   | Some n \<Rightarrow> nets)\<rparr>))))"

definition create_final_compose ::
  "config \<Rightarrow> compose_model \<Rightarrow> state \<Rightarrow> og_compose \<Rightarrow> error + og_compose" where
  "create_final_compose cfg model st final_compose =
     (case rewrite_services cfg model st (og_services final_compose) of
        Inl e \<Rightarrow> Inl e
      | Inr svcs \<Rightarrow> handle_proxy_container cfg (final_compose\<lparr>og_services := svcs\<rparr>))"

section \<open>The run\<close>

definition endswith :: "string \<Rightarrow> string \<Rightarrow> bool" where
  \<comment> \<open>\<open>s.endswith(p)\<close>\<close>
  "endswith s p = (length p \<le> length s \<and> drop (length s - length p) s = p)"

definition main ::
  "config \<Rightarrow> files \<Rightarrow> compose_model \<Rightarrow> og_compose \<Rightarrow> error + (state \<times> og_compose)" where
  \<comment> \<open>\<open>main\<close> from the two parsed descriptors on: the canonical \<open>model\<close> and the original
      \<open>final\<close>; the result is the filled containers and the rewritten descriptor\<close>
  "main opts fs model final =
     (let cfg = (if endswith (defaults_prefix opts) ''_'' then opts
                 else opts\<lparr>defaults_prefix := defaults_prefix opts @ ''_''\<rparr>)
      in case handle_services cfg fs final (cm_volumes model) (cm_services model) init_state of
           Inl e \<Rightarrow> Inl e
         | Inr st \<Rightarrow>
             (let st1 = add_releases_to_defaults cfg st
              in case create_final_compose cfg model st1 final of
                   Inl e \<Rightarrow> Inl e
                 | Inr final_compose \<Rightarrow> Inr (st1, final_compose)))"

section \<open>Notions used to state the properties\<close>






definition port_record :: "config \<Rightarrow> string \<Rightarrow> nat \<Rightarrow> var_record" where
  "port_record cfg name p =
     \<lparr>key = defaults_prefix cfg @ normalize_key_and_name (''host_port_'' @ name @ ''_'' @ str_nat p),
      original_key = Some (''host_port_'' @ name @ ''_'' @ str_nat p),
      value = VInt p, is_secret_flag = False, service = name,
      secret_path = None, secret_expr = None, env_file = None\<rparr>"

definition has_marker :: "string \<Rightarrow> bool" where
  "has_marker text = (case splitlines text of [] \<Rightarrow> False | line # rest \<Rightarrow> startswith line file_type_env)"






section \<open>Notions used in the proofs\<close>


definition port_step :: "config \<Rightarrow> string \<Rightarrow> nat \<Rightarrow> state \<Rightarrow> state" where
  "port_step cfg name n st =
     (let k = ''host_port_'' @ name @ ''_'' @ str_nat n;
          st1 = st\<lparr>exposed_ports_by_service := append_port name n (exposed_ports_by_service st)\<rparr>
      in if seen st k then st1
         else st1\<lparr>defaults := defaults st @ [port_record cfg name n],
                  services_by_env := append_service k name (services_by_env st)\<rparr>)"

definition same_fields :: "og_service \<Rightarrow> og_service \<Rightarrow> bool" where
  "same_fields a b =
     (og_environment a = og_environment b \<and> og_volumes a = og_volumes b \<and>
      og_ports a = og_ports b \<and> og_image a = og_image b \<and> og_user a = og_user b)"



section \<open>Example inputs\<close>

definition example_config :: config where
  "example_config =
     \<lparr>defaults_prefix = ''app_'', role_name = ''docker_'', min_secret_length = 12,
      secret_string_template =
        [Lit ''services/'', Field_role_name, Lit ''/'', Field_service_name, Lit ''/'', Field_env_key],
      proxy_container = None, ext_proxy_net = ''proxy-tier'', uid = None\<rparr>"

definition app_conf_mount :: mount where
  "app_conf_mount = \<lparr>vol_type = ''bind'', vol_source = ''./data/app.conf''\<rparr>"

definition app_conf_files :: files where
  "app_conf_files = (\<lambda>p. if p = ''./data/app.conf'' then Some ''listen=8080'' else None)"


definition env_file_model :: compose_model where
  "env_file_model =
     \<lparr>cm_services =
        [(''web'', \<lparr>svc_environment = Some [(''A'', ''1'')], svc_volumes = [], svc_ports = [],
                    svc_image = Some ''nginx:1.25''\<rparr>),
         (''db'', \<lparr>svc_environment = Some [(''B'', ''2'')], svc_volumes = [], svc_ports = [],
                   svc_image = Some ''postgres:16''\<rparr>)],
      cm_volumes = []\<rparr>"

definition env_file_final :: og_compose where
  "env_file_final =
     \<lparr>og_services =
        [(''web'', \<lparr>og_environment = EnvDict [(''A'', ''1'')], og_env_file = EnvFileStr ''web.env'',
                    og_volumes = None, og_ports = None, og_image = Some ''nginx:1.25'',
                    og_user = None, og_networks = None\<rparr>),
         (''db'', \<lparr>og_environment = EnvDict [(''B'', ''2'')], og_env_file = EnvFileAbsent,
                   og_volumes = None, og_ports = None, og_image = Some ''postgres:16'',
                   og_user = None, og_networks = None\<rparr>)],
      og_top_networks = None\<rparr>"

definition no_files :: files where
  "no_files = (\<lambda>p. None)"

definition bad_env_files :: files where
  "bad_env_files =
     (\<lambda>p. if p = ''web.env'' then Some (file_type_env @ [CHR 0x0A] @ ''export'') else None)"

definition bare_model :: compose_model where
  "bare_model =
     \<lparr>cm_services =
        [(''web'', \<lparr>svc_environment = None, svc_volumes = [], svc_ports = [],
                    svc_image = Some ''nginx''\<rparr>)],
      cm_volumes = []\<rparr>"

definition bare_web :: og_service where
  "bare_web =
     \<lparr>og_environment = EnvAbsent, og_env_file = EnvFileAbsent, og_volumes = None,
      og_ports = None, og_image = Some ''nginx'', og_user = None, og_networks = None\<rparr>"

definition bare_final :: og_compose where
  "bare_final = \<lparr>og_services = [(''web'', bare_web)], og_top_networks = None\<rparr>"

definition releases_model :: compose_model where
  "releases_model =
     \<lparr>cm_services =
        [(''web'', \<lparr>svc_environment = Some [(''RELEASES'', ''stable'')], svc_volumes = [],
                    svc_ports = [], svc_image = Some ''nginx:1.25''\<rparr>)],
      cm_volumes = []\<rparr>"

definition releases_final :: og_compose where
  "releases_final =
     \<lparr>og_services =
        [(''web'', \<lparr>og_environment = EnvDict [(''RELEASES'', ''stable'')],
                    og_env_file = EnvFileAbsent, og_volumes = None, og_ports = None,
                    og_image = Some ''nginx:1.25'', og_user = None, og_networks = None\<rparr>)],
      og_top_networks = None\<rparr>"





section \<open>Evaluating numbers\<close>





lemma py_int_empty: "py_int [] = None"
  by (simp add: py_int_def)

section \<open>Properties of the key normalizer\<close>

lemma of_char_lower_char:
  "(of_char (lower_char c) :: nat) =
     (let n = of_char c
      in if (65 \<le> n \<and> n \<le> 90) \<or> (192 \<le> n \<and> n \<le> 222 \<and> n \<noteq> 215) then n + 32 else n)"
  by (auto simp: lower_char_def Let_def)

lemma lower_char_idem: "lower_char (lower_char c) = lower_char c"
  by (auto simp: lower_char_def Let_def)

lemma char_eq_iff_nat: "(c = d) = ((of_char c :: nat) = of_char d)"
  by auto

lemma is_space_lower_char: "is_space (lower_char c) = is_space c"
  unfolding is_space_def of_char_lower_char by (auto simp: Let_def)

lemma lower_char_eq_hyphen: "(lower_char c = CHR ''-'') = (c = CHR ''-'')"
  unfolding char_eq_iff_nat[of _ "CHR ''-''"] of_char_lower_char by (auto simp: Let_def)

lemma lower_char_eq_bracket: "(lower_char c = CHR '']'') = (c = CHR '']'')"
  unfolding char_eq_iff_nat[of _ "CHR '']''"] of_char_lower_char by (auto simp: Let_def)

lemma lower_char_eq_newline: "(lower_char c = CHR 0x0A) = (c = CHR 0x0A)"
  unfolding char_eq_iff_nat[of _ "CHR 0x0A"] of_char_lower_char by (auto simp: Let_def)

lemma lower_idem: "lower (lower s) = lower s"
  by (simp add: lower_def lower_char_idem)

text \<open>A character that cannot start a match, or that is not followed by \<open>]\<close>, is kept.\<close>

lemma sub_keep:
  "\<not> (is_space c \<or> c = CHR ''-'') \<or> (t \<noteq> [] \<longrightarrow> hd t \<noteq> CHR '']'') \<Longrightarrow>
   sub_space_bracket (c # t) = c # sub_space_bracket t"
  by (cases t) auto

lemma sub_head:
  "sub_space_bracket (d # cs) \<noteq> [] \<and>
   (hd (sub_space_bracket (d # cs)) = d \<or> hd (sub_space_bracket (d # cs)) = CHR ''_'')"
  by (cases cs) auto

lemma underscore_not_class: "\<not> (is_space (CHR ''_'') \<or> CHR ''_'' = CHR ''-'')"
  by (simp add: is_space_def)

text \<open>The substitution leaves no match behind: the replacement character neither starts
  nor ends one.\<close>

lemma sub_idem: "sub_space_bracket (sub_space_bracket s) = sub_space_bracket s"
proof (induction s rule: sub_space_bracket.induct)
  case (1 c d cs)
  show ?case
  proof (cases "(is_space c \<or> c = CHR ''-'') \<and> d = CHR '']''")
    case True
    then have "sub_space_bracket (c # d # cs) = CHR ''_'' # sub_space_bracket cs" by simp
    moreover have "sub_space_bracket (CHR ''_'' # sub_space_bracket cs)
        = CHR ''_'' # sub_space_bracket (sub_space_bracket cs)"
      using underscore_not_class by (intro sub_keep) blast
    ultimately show ?thesis using 1(1)[OF True] by simp
  next
    case False
    then have e: "sub_space_bracket (c # d # cs) = c # sub_space_bracket (d # cs)" by auto
    have "\<not> (is_space c \<or> c = CHR ''-'') \<or> hd (sub_space_bracket (d # cs)) \<noteq> CHR '']''"
      using False sub_head[of d cs] by auto
    then have "sub_space_bracket (c # sub_space_bracket (d # cs))
        = c # sub_space_bracket (sub_space_bracket (d # cs))"
      by (intro sub_keep) blast
    then show ?thesis using e 1(2)[OF False] by simp
  qed
qed simp_all

lemma sub_lower: "sub_space_bracket (lower s) = lower (sub_space_bracket s)"
  by (induction s rule: sub_space_bracket.induct)
     (simp_all add: lower_def is_space_lower_char lower_char_eq_hyphen lower_char_eq_bracket
        lower_char_def[of "CHR ''_''"])

text \<open>C4: the key normalizer is idempotent: normalizing a normalized string returns it
  unchanged, for every string (printable or not).\<close>

theorem normalize_idempotent:
  "normalize_key_and_name (normalize_key_and_name s) = normalize_key_and_name s"
  by (simp add: normalize_key_and_name_def sub_lower sub_idem lower_idem)

text \<open>C5: the claim is that hyphens and whitespace become underscores, so that
  \<open>my-role\<close> normalizes to \<open>my_role\<close>. The pattern of the source only matches a
  hyphen or blank that a \<open>]\<close> follows, so the hyphen of \<open>my-role\<close> stays.\<close>

theorem normalize_my_role_unchanged:
  "normalize_key_and_name ''my-role'' = ''my-role'' \<and>
   normalize_key_and_name ''my-role'' \<noteq> ''my_role''"
  by (simp add: normalize_key_and_name_def lower_def lower_char_def is_space_def)

section \<open>Properties of the secret classifier\<close>













section \<open>Properties of the registry\<close>

lemma seen_append_service:
  "seen (st\<lparr>services_by_env := append_service k s (services_by_env st)\<rparr>) k' = (k' = k \<or> seen st k')"
  by (simp add: seen_def append_service_def update_conv')

lemma add_to_defaults_shape:
  assumes "add_to_defaults cfg k v s sec ef st = Inr st'"
  shows "(seen st k \<and> st' = st) \<or>
         (\<not> seen st k \<and>
          (\<exists>r. defaults st' = defaults st @ [r]
             \<and> services_by_env st' = append_service k s (services_by_env st)
             \<and> backup_paths st' = backup_paths st
             \<and> exposed_ports_by_service st' = exposed_ports_by_service st
             \<and> volume_defaults st' = volume_defaults st
             \<and> images_tags st' = images_tags st
             \<and> key r = variable_from_env cfg k \<and> original_key r = Some k \<and> value r = v
             \<and> is_secret_flag r = sec \<and> service r = s))"
proof (cases "seen st k")
  case True
  with assms show ?thesis by (simp add: add_to_defaults_def)
next
  case False
  with assms show ?thesis
    unfolding add_to_defaults_def Let_def
    by (auto split: if_splits val.splits sum.splits option.splits prod.splits)
qed

lemma seen_after_append:
  "services_by_env st' = append_service k s (services_by_env st) \<Longrightarrow>
   seen st' k' = (k' = k \<or> seen st k')"
  by (simp add: seen_def append_service_def update_conv')

lemma add_to_defaults_seen: "seen st k \<Longrightarrow> add_to_defaults cfg k v s sec ef st = Inr st"
  by (simp add: add_to_defaults_def)

lemma add_to_defaults_succeeds:
  assumes "sec \<longrightarrow> (\<exists>t. v = VStr t)"
    and "\<forall>f. ef = Some f \<longrightarrow> f \<noteq> [] \<longrightarrow> path_parts f \<noteq> []"
  shows "\<exists>st'. add_to_defaults cfg k v s sec ef st = Inr st'"
proof (cases "seen st k")
  case True
  then show ?thesis by (simp add: add_to_defaults_def)
next
  case False
  have fid: "\<exists>x. file_name_id f = Inr x" if "path_parts f \<noteq> []" for f
    using that by (cases "path_parts f") (simp_all add: file_name_id_def)
  show ?thesis
  proof (cases ef)
    case None
    with False assms(1) show ?thesis
      unfolding add_to_defaults_def Let_def by (cases sec) auto
  next
    case (Some f)
    show ?thesis
    proof (cases "f = []")
      case True
      with Some False assms(1) show ?thesis
        unfolding add_to_defaults_def Let_def by (cases sec) auto
    next
      case nonempty: False
      with Some assms(2) have "path_parts f \<noteq> []" by simp
      then obtain x where "file_name_id f = Inr x" using fid by blast
      with Some False nonempty assms(1) show ?thesis
        unfolding add_to_defaults_def Let_def by (cases sec) auto
    qed
  qed
qed

text \<open>C2: registering a source key that the registry has not seen, and then registering
  it again with any service name, value, secret flag and env file, yields exactly one
  record for that key in the defaults list, and the record carries the value (and the
  service) of the first registration.\<close>

theorem register_twice_one_record:
  assumes fresh: "\<not> seen st k" "\<forall>r\<in>set (defaults st). original_key r \<noteq> Some k"
    and ok: "sec1 \<longrightarrow> (\<exists>t. v1 = VStr t)" "\<forall>f. ef1 = Some f \<longrightarrow> f \<noteq> [] \<longrightarrow> path_parts f \<noteq> []"
  shows "\<exists>st1 st2 r.
           add_to_defaults cfg k v1 s1 sec1 ef1 st = Inr st1 \<and>
           add_to_defaults cfg k v2 s2 sec2 ef2 st1 = Inr st2 \<and>
           filter (\<lambda>r. original_key r = Some k) (defaults st2) = [r] \<and>
           value r = v1 \<and> service r = s1 \<and> key r = variable_from_env cfg k"
proof -
  from add_to_defaults_succeeds[OF ok] obtain st1
    where 1: "add_to_defaults cfg k v1 s1 sec1 ef1 st = Inr st1" by blast
  from add_to_defaults_shape[OF 1] fresh(1) obtain r
    where d1: "defaults st1 = defaults st @ [r]"
      and s1: "services_by_env st1 = append_service k s1 (services_by_env st)"
      and r: "key r = variable_from_env cfg k" "original_key r = Some k" "value r = v1" "service r = s1"
    by blast
  have "seen st1 k" using seen_after_append[OF s1] by simp
  then have 2: "add_to_defaults cfg k v2 s2 sec2 ef2 st1 = Inr st1"
    by (rule add_to_defaults_seen)
  have "filter (\<lambda>r. original_key r = Some k) (defaults st) = []"
    using fresh(2) by (simp add: filter_empty_conv)
  then have "filter (\<lambda>r. original_key r = Some k) (defaults st1) = [r]"
    unfolding d1 using r(2) by simp
  with 1 2 r show ?thesis by blast
qed

text \<open>The registry is empty at the start of a run; there the key \<open>DB_HOST\<close>, registered
  for \<open>web\<close> and then for \<open>api\<close> with another value, keeps the first value.\<close>

theorem register_twice_witness:
  "\<not> seen init_state ''DB_HOST'' \<and> defaults init_state = [] \<and>
   (\<exists>st1 st2 r.
      add_to_defaults example_config ''DB_HOST'' (VStr ''db'') ''web'' False None init_state = Inr st1 \<and>
      add_to_defaults example_config ''DB_HOST'' (VStr ''other'') ''api'' False None st1 = Inr st2 \<and>
      filter (\<lambda>r. original_key r = Some ''DB_HOST'') (defaults st2) = [r] \<and>
      value r = VStr ''db'' \<and> service r = ''web'' \<and>
      key r = variable_from_env example_config ''DB_HOST'')"
proof -
  have a: "\<not> seen init_state ''DB_HOST''" by (simp add: seen_def init_state_def)
  have b: "\<forall>r\<in>set (defaults init_state). original_key r \<noteq> Some ''DB_HOST''"
    by (simp add: init_state_def)
  have c: "False \<longrightarrow> (\<exists>t. VStr ''db'' = VStr t)" by simp
  have d: "\<forall>f. (None :: string option) = Some f \<longrightarrow> f \<noteq> [] \<longrightarrow> path_parts f \<noteq> []" by simp
  have e: "defaults init_state = []" by (simp add: init_state_def)
  from register_twice_one_record[where st = init_state and k = "''DB_HOST''" and cfg = example_config
      and ?v1.0 = "VStr ''db''" and ?s1.0 = "''web''" and ?sec1.0 = False and ?ef1.0 = None
      and ?v2.0 = "VStr ''other''" and ?s2.0 = "''api''" and ?sec2.0 = False and ?ef2.0 = None,
      OF a b c d]
  show ?thesis using a e by blast
qed

section \<open>Properties of the port walker\<close>

lemma add_plain:
  "add_to_defaults cfg k v s False None st =
     Inr (if seen st k then st
          else st\<lparr>defaults := defaults st @
                     [\<lparr>key = variable_from_env cfg k, original_key = Some k, value = v,
                       is_secret_flag = False, service = s, secret_path = None,
                       secret_expr = None, env_file = None\<rparr>],
                   env_files := env_files st,
                   services_by_env := append_service k s (services_by_env st)\<rparr>)"
  by (simp add: add_to_defaults_def Let_def)

lemma ports_Cons_published:
  "published p = Some s \<Longrightarrow> py_int s = Some n \<Longrightarrow>
   handle_svc_ports cfg name (p # ps) st = handle_svc_ports cfg name ps (port_step cfg name n st)"
  by (auto simp: add_plain port_step_def Let_def seen_def variable_from_port_def port_record_def
        variable_from_env_def py_int_empty)

lemma ports_Cons_skip:
  "published p = None \<or> published p = Some [] \<Longrightarrow>
   handle_svc_ports cfg name (p # ps) st = handle_svc_ports cfg name ps st"
  by auto

lemma ports_Cons_bad:
  "published p = Some s \<Longrightarrow> s \<noteq> [] \<Longrightarrow> py_int s = None \<Longrightarrow>
   handle_svc_ports cfg name (p # ps) st = Inl ValueError"
  by simp

lemma port_cases:
  obtains (skip) "published p = None \<or> published p = Some []"
  | (pub) s n where "published p = Some s" "py_int s = Some n"
  | (bad) s where "published p = Some s" "s \<noteq> []" "py_int s = None"
  by (cases "published p") (auto simp: py_int_empty)







lemma other_port_step:
  "backup_paths (port_step cfg name n st) = backup_paths st"
  "volume_defaults (port_step cfg name n st) = volume_defaults st"
  "images_tags (port_step cfg name n st) = images_tags st"
  "env_files (port_step cfg name n st) = env_files st"
  by (simp_all add: port_step_def Let_def)






lemma ports_other:
  assumes "handle_svc_ports cfg name ps st = Inr st'"
  shows "backup_paths st' = backup_paths st \<and> volume_defaults st' = volume_defaults st
       \<and> images_tags st' = images_tags st \<and> env_files st' = env_files st"
  using assms
proof (induction ps arbitrary: st)
  case Nil
  then show ?case by simp
next
  case (Cons p ps)
  show ?case
  proof (cases p rule: port_cases)
    case skip
    with Cons show ?thesis by (simp only: ports_Cons_skip)
  next
    case (pub s n)
    with Cons.prems have "handle_svc_ports cfg name ps (port_step cfg name n st) = Inr st'"
      by (simp only: ports_Cons_published)
    from Cons.IH[OF this] show ?thesis by (simp add: other_port_step)
  next
    case (bad s)
    with Cons.prems show ?thesis by simp
  qed
qed







section \<open>Bind-mounted files without the marker\<close>

lemma iterate_no_marker: "\<not> has_marker text \<Longrightarrow> iterate False 0 (splitlines text) = []"
  by (cases "splitlines text") (simp_all add: has_marker_def)

lemma env_file_no_marker:
  "fs path = Some text \<Longrightarrow> \<not> has_marker text \<Longrightarrow> handle_svc_env_file cfg fs name path st = Inr st"
  by (simp add: handle_svc_env_file_def env_from_file_def iterate_no_marker env_to_dict_def)

text \<open>C8: a bind mount whose file does not start with the env-file marker line contributes
  no variable record (the list of defaults, the seen keys and the env-file map stay as
  they are), its source path is appended to the backup paths, and the walker goes on
  with the remaining mounts from that state.\<close>

theorem unmarked_bind_mount_skipped:
  assumes "vol_type m = ''bind''" "fs (vol_source m) = Some text" "\<not> has_marker text"
  shows "\<exists>st1. handle_svc_volumes cfg fs name [m] volumes st = Inr st1 \<and>
            defaults st1 = defaults st \<and> services_by_env st1 = services_by_env st \<and>
            env_files st1 = env_files st \<and>
            backup_paths st1 = backup_paths st @ [vol_source m] \<and>
            handle_svc_volumes cfg fs name (m # ms) volumes st
              = handle_svc_volumes cfg fs name ms volumes st1"
  using assms by (simp add: env_file_no_marker Let_def)

lemma app_conf_no_marker: "\<not> has_marker ''listen=8080''"
  by (simp add: has_marker_def splitlines_def is_linebreak_def startswith_def file_type_env_def)

text \<open>The scenario of the spec: \<open>./data/app.conf\<close> without marker line.\<close>

theorem unmarked_bind_mount_witness:
  "vol_type app_conf_mount = ''bind'' \<and>
   app_conf_files (vol_source app_conf_mount) = Some ''listen=8080'' \<and>
   \<not> has_marker ''listen=8080'' \<and>
   (\<exists>st1. handle_svc_volumes example_config app_conf_files ''web'' [app_conf_mount] [] init_state = Inr st1 \<and>
      defaults st1 = defaults init_state \<and> services_by_env st1 = services_by_env init_state \<and>
      env_files st1 = env_files init_state \<and>
      backup_paths st1 = backup_paths init_state @ [vol_source app_conf_mount] \<and>
      handle_svc_volumes example_config app_conf_files ''web'' (app_conf_mount # []) [] init_state
        = handle_svc_volumes example_config app_conf_files ''web'' [] [] st1)"
proof -
  have a: "vol_type app_conf_mount = ''bind''" by (simp add: app_conf_mount_def)
  have b: "app_conf_files (vol_source app_conf_mount) = Some ''listen=8080''"
    by (simp add: app_conf_mount_def app_conf_files_def)
  note c = app_conf_no_marker
  from unmarked_bind_mount_skipped[where m = app_conf_mount and fs = app_conf_files
      and cfg = example_config and name = "''web''" and volumes = "[]" and st = init_state
      and ms = "[]", OF a b c]
  show ?thesis using a b c by blast
qed

section \<open>Env files of a service\<close>

text \<open>C6: the claim is that an env file a service declares and that is absent, or has a
  line that is not \<open>KEY=VALUE\<close>, contributes nothing and the run goes on. In the code
  \<open>handle_svc_environment\<close> reads the file without a guard: for service \<open>web\<close> with
  \<open>env_file: web.env\<close> the run ends with the error of \<open>read_text\<close> when the file is
  missing, and with the error of the tuple unpacking when the file has the line
  \<open>export\<close>; service \<open>db\<close> is never reached. The walker of bind-mounted files,
  \<open>handle_svc_env_file\<close>, does skip both files.\<close>

theorem env_file_failure_aborts:
  "main example_config no_files env_file_model env_file_final = Inl OSError \<and>
   main example_config bad_env_files env_file_model env_file_final = Inl ValueError \<and>
   handle_svc_env_file example_config no_files ''web'' ''web.env'' init_state = Inr init_state \<and>
   handle_svc_env_file example_config bad_env_files ''web'' ''web.env'' init_state = Inr init_state"
  by (simp add: main_def example_config_def endswith_def env_file_model_def env_file_final_def
        no_files_def bad_env_files_def handle_svc_environment_def env_f_list_def env_from_file_def
        splitlines_def is_linebreak_def env_to_dict_def handle_svc_env_file_def startswith_def
        file_type_env_def)

section \<open>Properties of the descriptor rewriter\<close>

lemma split_char_no_sep: "sep \<notin> set s \<Longrightarrow> split_char sep s = [s]"
  by (induction s) auto

lemma patch_image_tag_no_colon: "CHR '':'' \<notin> set img \<Longrightarrow> patch_image_tag img new_tag = new_tag"
  by (simp add: patch_image_tag_def split_char_no_sep)

lemma rewrite_service_image:
  assumes "rewrite_service cfg model st name data = Inr data1"
  shows "\<exists>img. og_image data = Some img \<and>
               og_image data1 = Some (patch_image_tag img (new_tag_of cfg name))"
  using assms unfolding rewrite_service_def Let_def
  by (auto split: sum.splits option.splits if_splits)




lemma rewrite_services_lookup:
  "rewrite_services cfg model st svcs = Inr svcs1 \<Longrightarrow>
   map_of svcs1 name = (case map_of svcs name of
                          None \<Rightarrow> None
                        | Some data \<Rightarrow>
                            (case rewrite_service cfg model st name data of
                               Inl e \<Rightarrow> None | Inr data1 \<Rightarrow> Some data1))
   \<and> (\<forall>data. map_of svcs name = Some data \<longrightarrow>
          (\<exists>data1. rewrite_service cfg model st name data = Inr data1))"
proof (induction svcs arbitrary: svcs1)
  case Nil
  then show ?case by simp
next
  case (Cons a svcs)
  obtain n d where a: "a = (n, d)" by (cases a)
  from Cons.prems a obtain d1 rest1 where
    d1: "rewrite_service cfg model st n d = Inr d1"
    and rest: "rewrite_services cfg model st svcs = Inr rest1"
    and s1: "svcs1 = (n, d1) # rest1"
    by (auto split: sum.splits)
  from Cons.IH[OF rest] d1 s1 a show ?case by auto
qed

lemma proxy_lookup:
  assumes "handle_proxy_container cfg cc = Inr cc1"
  shows "(case map_of (og_services cc) name of
            None \<Rightarrow> map_of (og_services cc1) name = None
          | Some d \<Rightarrow> (\<exists>d1. map_of (og_services cc1) name = Some d1 \<and> same_fields d1 d))"
  using assms unfolding handle_proxy_container_def Let_def same_fields_def
  by (auto simp: update_conv' split: option.splits if_splits)

lemma create_final_compose_lookup:
  assumes "create_final_compose cfg model st final = Inr fc"
  shows "(case map_of (og_services final) name of
            None \<Rightarrow> map_of (og_services fc) name = None
          | Some data \<Rightarrow>
              (\<exists>data1 data2. rewrite_service cfg model st name data = Inr data1 \<and>
                 map_of (og_services fc) name = Some data2 \<and> same_fields data2 data1))"
proof -
  from assms obtain svcs where
    svcs: "rewrite_services cfg model st (og_services final) = Inr svcs"
    and proxy: "handle_proxy_container cfg (final\<lparr>og_services := svcs\<rparr>) = Inr fc"
    unfolding create_final_compose_def by (auto split: sum.splits)
  note l = rewrite_services_lookup[OF svcs, of name]
  note p = proxy_lookup[OF proxy, of name]
  show ?thesis
  proof (cases "map_of (og_services final) name")
    case None
    with l have "map_of svcs name = None" by simp
    with p None show ?thesis by simp
  next
    case (Some data)
    with l obtain data1 where d1: "rewrite_service cfg model st name data = Inr data1"
      and m: "map_of svcs name = Some data1" by auto
    from p m obtain data2 where "map_of (og_services fc) name = Some data2" "same_fields data2 data1"
      by auto
    with Some d1 show ?thesis by auto
  qed
qed

text \<open>C9: for a service of the original descriptor whose image has no \<open>:\<close>, the rewritten
  descriptor's image field of that service is the releases placeholder expression alone;
  the repository name is gone.\<close>

theorem bare_image_replaced:
  assumes "create_final_compose cfg model st final = Inr fc"
    and "map_of (og_services final) name = Some data"
    and "og_image data = Some img"
    and "CHR '':'' \<notin> set img"
  shows "\<exists>data1. map_of (og_services fc) name = Some data1 \<and>
           og_image data1 =
             Some (''{{ '' @ variable_from_env cfg releases_key @ ''['' @ [CHR 0x27] @ name
                     @ [CHR 0x27] @ ''] }}'')"
proof -
  from create_final_compose_lookup[OF assms(1), of name] assms(2)
  obtain data1 data2 where r: "rewrite_service cfg model st name data = Inr data1"
    and m: "map_of (og_services fc) name = Some data2" and s: "same_fields data2 data1"
    by auto
  from rewrite_service_image[OF r] assms(3)
  have "og_image data1 = Some (patch_image_tag img (new_tag_of cfg name))" by auto
  with assms(4) have "og_image data1 = Some (new_tag_of cfg name)"
    by (simp add: patch_image_tag_no_colon)
  with s m show ?thesis by (auto simp: same_fields_def new_tag_of_def)
qed

lemma normalize_releases: "normalize_key_and_name ''releases'' = ''releases''"
  by (simp add: normalize_key_and_name_def lower_def lower_char_def is_space_def)

text \<open>Service \<open>web\<close> with image \<open>nginx\<close>.\<close>

theorem bare_image_witness:
  "map_of (og_services bare_final) ''web'' = Some bare_web \<and>
   og_image bare_web = Some ''nginx'' \<and> CHR '':'' \<notin> set ''nginx'' \<and>
   (\<exists>fc data1. create_final_compose example_config bare_model init_state bare_final = Inr fc \<and>
       map_of (og_services fc) ''web'' = Some data1 \<and>
       og_image data1 = Some (''{{ app_releases['' @ [CHR 0x27] @ ''web'' @ [CHR 0x27] @ ''] }}''))"
proof -
  have a: "map_of (og_services bare_final) ''web'' = Some bare_web" by (simp add: bare_final_def)
  have b: "og_image bare_web = Some ''nginx''" by (simp add: bare_web_def)
  have c: "CHR '':'' \<notin> set ''nginx''" by simp
  have "\<exists>fc. create_final_compose example_config bare_model init_state bare_final = Inr fc"
    by (simp add: create_final_compose_def bare_final_def bare_web_def rewrite_service_def
          rewrite_environment_def rewrite_ports_def init_state_def handle_proxy_container_def
          example_config_def)
  then obtain fc where run: "create_final_compose example_config bare_model init_state bare_final = Inr fc" ..
  from bare_image_replaced[OF run a b c] obtain data1 where
    "map_of (og_services fc) ''web'' = Some data1"
    "og_image data1 = Some (''{{ '' @ variable_from_env example_config releases_key @ ''[''
        @ [CHR 0x27] @ ''web'' @ [CHR 0x27] @ ''] }}'')" by blast
  then have "map_of (og_services fc) ''web'' = Some data1 \<and>
       og_image data1 = Some (''{{ app_releases['' @ [CHR 0x27] @ ''web'' @ [CHR 0x27] @ ''] }}'')"
    by (simp add: variable_from_env_def releases_key_def normalize_releases example_config_def)
  with a b c run show ?thesis by blast
qed

section \<open>The aggregate releases record\<close>

lemma lower_RELEASES: "lower ''RELEASES'' = ''releases''"
  by (simp add: lower_def char_eq_iff_nat of_char_lower_char)

lemma normalize_RELEASES: "normalize_key_and_name ''RELEASES'' = ''releases''"
  by (simp add: normalize_key_and_name_def lower_RELEASES is_space_def)

lemma RELEASES_not_secret: "\<not> is_secret ''web'' ''RELEASES'' ''stable'' None"
  by (simp add: is_secret_def patt_match_here_def secret_suffixes_def at_dollar_def lower_def
        char_eq_iff_nat of_char_lower_char)

text \<open>C10: \<open>add_releases_to_defaults\<close> appends the releases record whatever the registry
  has seen; when service \<open>web\<close> declares the environment variable \<open>RELEASES\<close>, the
  final defaults list has two records with the key \<open>app_releases\<close>.\<close>

theorem releases_key_twice:
  "(\<exists>r. defaults (add_releases_to_defaults cfg st) = defaults st @ [r] \<and>
        key r = variable_from_env cfg releases_key) \<and>
   (case main example_config no_files releases_model releases_final of
      Inl e \<Rightarrow> False
    | Inr (st1, fc) \<Rightarrow>
        map key (defaults st1) = [''app_releases'', ''app_releases''] \<and>
        map original_key (defaults st1) = [Some ''RELEASES'', None])"
  by (simp add: add_releases_to_defaults_def main_def example_config_def endswith_def
        releases_model_def releases_final_def handle_svc_environment_def env_f_list_def
        RELEASES_not_secret handle_env_var_def add_plain seen_def init_state_def
        handle_service_image_def variable_from_env_def normalize_RELEASES normalize_releases
        releases_key_def create_final_compose_def rewrite_service_def rewrite_environment_def
        rewrite_ports_def handle_proxy_container_def)

section \<open>Invariants of the service walker\<close>















section \<open>Placeholders of the rewritten descriptor\<close>





















end
